theory Spec2Isabelle
  imports Main
begin

section \<open>The analytics core of cc-site-client.js\<close>

text \<open>
  The script keeps three kinds of state: the browser's globals it reads (\<open>navigator\<close>,
  \<open>window\<close>, \<open>document\<close>, \<open>location\<close>, \<open>localStorage\<close>), the constants its closure
  computes once when the script is evaluated (\<open>cfg\<close>, \<open>dnt\<close>, \<open>utm\<close>, \<open>refTrail\<close>), and the
  object \<open>state = { queue: [], flushing: false }\<close>. Each is a record here, and every function
  takes what it reads and returns what it writes. The three copies of the script in the file
  have the same privacy gate, identity, queue and transport code (lines 122-190, 688-756 and
  1274-1342); the second copy adds \<open>W.CC_EMBED.track\<close>. Line numbers are those of the
  first copy unless they are past line 516.

  The page runs one handler at a time, so a call of \<open>enqueue\<close> or \<open>flush\<close> and the
  settling of a pending \<open>fetch\<close> are each one step on the state; what happens between two
  steps (time passing, the page changing, other calls) is in the arguments of the next.
\<close>

subsection \<open>JavaScript values handed in by callers\<close>

datatype jsval =
    JUndefined
  | JNull
  | JBool bool
  | JNum int
  | JStr string
  | JFunction
  | JArr "jsval list"
  | JObj "(string \<times> jsval) list"

text \<open>The \<open>typeof\<close> operator: \<open>null\<close> and arrays are of type \<open>object\<close>.\<close>

fun typeof :: "jsval \<Rightarrow> string" where
  "typeof JUndefined = ''undefined''"
| "typeof JNull = ''object''"
| "typeof (JBool b) = ''boolean''"
| "typeof (JNum n) = ''number''"
| "typeof (JStr s) = ''string''"
| "typeof JFunction = ''function''"
| "typeof (JArr xs) = ''object''"
| "typeof (JObj kvs) = ''object''"

text \<open>Truthiness, as \<open>&&\<close>, \<open>||\<close> and \<open>!\<close> read a value.\<close>

fun truthy :: "jsval \<Rightarrow> bool" where
  "truthy JUndefined = False"
| "truthy JNull = False"
| "truthy (JBool b) = b"
| "truthy (JNum n) = (n \<noteq> 0)"
| "truthy (JStr s) = (s \<noteq> [])"
| "truthy JFunction = True"
| "truthy (JArr xs) = True"
| "truthy (JObj kvs) = True"

subsection \<open>Configuration, storage and the browser\<close>

text \<open>
  \<open>cfg\<close> (lines 62-94), with the fields the analytics core reads. The tunables are the
  results of \<open>parseInt\<close>, taken as integers.
\<close>

record config =
  siteId :: string
  endpoint :: string
  consentRequired :: bool
  sessionTimeoutMs :: int
  heartbeatMs :: int
  maxBatch :: int

text \<open>The session object \<open>{ id, started, last }\<close> stored under \<open>cc_sid\<close>.\<close>

record session =
  sess_id :: string
  sess_started :: int
  sess_last :: int

text \<open>
  \<open>localStorage\<close>, with the four keys the script uses, each holding the value the script
  writes there (\<open>None\<close>: the key is absent). \<open>getItem\<close> and \<open>setItem\<close> may throw (storage
  disabled, quota exceeded); the wrapper \<open>ls\<close> catches both.
\<close>

record storage =
  getItem_throws :: bool
  setItem_throws :: bool
  cc_vid :: "string option"
  cc_sid :: "session option"
  cc_consent_granted :: "bool option"
  cc_ref :: "string list option"

text \<open>
  \<open>ls.get(k, def)\<close> (line 106): the value stored under the key, \<open>def\<close> when the key is
  absent or \<open>getItem\<close> throws. A key is given by its field; \<open>None\<close> is \<open>null\<close>.
\<close>

definition ls_get :: "(storage \<Rightarrow> 'a option) \<Rightarrow> 'a option \<Rightarrow> storage \<Rightarrow> 'a option" where
  "ls_get key def ls =
     (if getItem_throws ls then def
      else (case key ls of None \<Rightarrow> def | Some v \<Rightarrow> Some v))"

text \<open>\<open>ls.set(k, v)\<close> (line 107): stores the value, and does nothing when \<open>setItem\<close> throws.\<close>

definition ls_set ::
  "(('a option \<Rightarrow> 'a option) \<Rightarrow> storage \<Rightarrow> storage) \<Rightarrow> 'a \<Rightarrow> storage \<Rightarrow> storage" where
  "ls_set key_update v ls =
     (if setItem_throws ls then ls else key_update (\<lambda>_. Some v) ls)"

text \<open>What \<open>navigator.sendBeacon\<close> does when called: it may be missing, throw, or return.\<close>

datatype beacon = BeaconMissing | BeaconThrows | BeaconReturns bool

text \<open>The browser globals the core reads, as they stand at the time of a call.\<close>

record browser =
  N_doNotTrack :: "string option"
  N_msDoNotTrack :: "string option"
  W_doNotTrack :: "string option"
  N_language :: string
  N_sendBeacon :: beacon
  L_href :: string
  L_pathname :: string
  D_title :: string
  D_referrer :: string
  Intl_timeZone :: string
  W_innerWidth :: int
  W_innerHeight :: int
  W_scrollX :: int
  W_scrollY :: int
  localStorage :: storage

text \<open>
  The values \<open>now()\<close> and \<open>uuid()\<close> return during one call of \<open>enqueue\<close>: \<open>now()\<close> on
  line 155, \<open>now()\<close> on line 133, \<open>uuid()\<close> on line 135 and \<open>uuid()\<close> on line 130 (a
  \<open>uuid()\<close> that the call does not reach is not drawn).
\<close>

record draws =
  ts_now :: int
  sid_now :: int
  sid_uuid :: string
  vid_uuid :: string

subsection \<open>Event records, the queue and the closure's constants\<close>

text \<open>
  The object \<open>baseEvent\<close> builds (lines 154-165); the fields carry the prefix \<open>ev_\<close>.
  \<open>null\<close> is \<open>None\<close>.
\<close>

record event =
  ev_t :: string
  ev_ts :: int
  ev_sid :: string
  ev_vid :: string
  ev_site :: string
  ev_url :: string
  ev_path :: string
  ev_title :: string
  ev_ref :: "string option"
  ev_lang :: string
  ev_tz :: "string option"
  ev_vp :: "int \<times> int"
  ev_sc :: "int \<times> int"
  ev_utm :: "(string \<times> string) list"
  ev_trail :: "string list"
  ev_payload :: jsval

text \<open>\<open>const state = { queue: [], flushing:false }\<close> (line 152).\<close>

record state =
  queue :: "event list"
  flushing :: bool

text \<open>
  The constants of the closure: \<open>cfg\<close>, \<open>dnt\<close> (line 123), \<open>utm\<close> (line 144) and
  \<open>refTrail\<close> (lines 146-149). They are computed once, when the script is evaluated.
\<close>

record script =
  cfg :: config
  dnt :: bool
  utm :: "(string \<times> string) list"
  refTrail :: "string list"

text \<open>What a call of \<open>flush\<close> hands to the network: a beacon the browser accepted, or a
  \<open>fetch\<close> POST whose promise is pending. Both carry the batch of the body.\<close>

datatype transport = BeaconAccepted "event list" | FetchPending "event list"

text \<open>
  How the pending \<open>fetch\<close> settles. The promise of \<open>fetch\<close> rejects on a network error
  only; a response of any HTTP status, 4xx and 5xx included, fulfils it.
\<close>

datatype fetch_result = NetworkError | Response nat

subsection \<open>Privacy gates (lines 122-125)\<close>

text \<open>The expression of line 123, over the browser it is evaluated in.\<close>

definition dnt_signal :: "browser \<Rightarrow> bool" where
  "dnt_signal b =
     (N_doNotTrack b = Some ''1'' \<or> N_msDoNotTrack b = Some ''1'' \<or> W_doNotTrack b = Some ''1'')"

definition hasConsent :: "script \<Rightarrow> browser \<Rightarrow> bool" where
  "hasConsent sc b =
     (\<not> consentRequired (cfg sc) \<or>
      (case ls_get cc_consent_granted (Some False) (localStorage b) of
         Some v \<Rightarrow> v
       | None \<Rightarrow> False))"

definition readyToTrack :: "script \<Rightarrow> browser \<Rightarrow> bool" where
  "readyToTrack sc b =
     (\<not> dnt sc \<and> hasConsent sc b \<and> siteId (cfg sc) \<noteq> [] \<and> endpoint (cfg sc) \<noteq> [])"

text \<open>\<open>API.consentGranted\<close> (line 456).\<close>

definition consentGranted :: "browser \<Rightarrow> browser" where
  "consentGranted b = b\<lparr>localStorage := ls_set cc_consent_granted_update True (localStorage b)\<rparr>"

subsection \<open>Identity (lines 127-139)\<close>

text \<open>\<open>getVisitorId\<close> (line 130); \<open>u\<close> is what \<open>uuid()\<close> returns if it is called.\<close>

definition getVisitorId :: "string \<Rightarrow> storage \<Rightarrow> string \<times> storage" where
  "getVisitorId u ls =
     (case ls_get cc_vid None ls of
        None \<Rightarrow> (u, ls_set cc_vid_update u ls)
      | Some i \<Rightarrow> if i = [] then (u, ls_set cc_vid_update u ls) else (i, ls))"

text \<open>
  \<open>getSessionId\<close> (lines 131-138); \<open>nowTs\<close> is what \<open>now()\<close> returns and \<open>u\<close> what
  \<open>uuid()\<close> returns if it is called.
\<close>

definition getSessionId :: "script \<Rightarrow> int \<Rightarrow> string \<Rightarrow> storage \<Rightarrow> string \<times> storage" where
  "getSessionId sc nowTs u ls =
     (let s = (case ls_get cc_sid None ls of
                 None \<Rightarrow> \<lparr>sess_id = u, sess_started = nowTs, sess_last = nowTs\<rparr>
               | Some s0 \<Rightarrow>
                   if sess_id s0 = [] \<or> nowTs - sess_last s0 > sessionTimeoutMs (cfg sc)
                   then \<lparr>sess_id = u, sess_started = nowTs, sess_last = nowTs\<rparr>
                   else s0\<lparr>sess_last := nowTs\<rparr>)
      in (sess_id s, ls_set cc_sid_update s ls))"

text \<open>\<open>touchSession\<close> (line 139).\<close>

definition touchSession :: "int \<Rightarrow> storage \<Rightarrow> storage" where
  "touchSession nowTs ls =
     (case ls_get cc_sid None ls of
        None \<Rightarrow> ls
      | Some s \<Rightarrow> ls_set cc_sid_update (s\<lparr>sess_last := nowTs\<rparr>) ls)"

subsection \<open>Referrer trail (lines 145-149)\<close>

text \<open>
  What the \<open>if\<close> of lines 147-149 does to the array \<open>refTrail\<close> for the referrer \<open>r\<close>:
  \<open>push\<close>, then \<open>shift\<close> when the length exceeds 5.
\<close>

definition refTrail_append :: "string \<Rightarrow> string list \<Rightarrow> string list" where
  "refTrail_append r trail =
     (if r \<noteq> [] \<and> (trail = [] \<or> last trail \<noteq> r)
      then (let pushed = trail @ [r] in if length pushed > 5 then tl pushed else pushed)
      else trail)"

text \<open>Lines 146-149 as a whole: the trail is read from storage, extended, and stored again
  when it was extended.\<close>

definition load_refTrail :: "browser \<Rightarrow> string list \<times> browser" where
  "load_refTrail b =
     (let trail = (case ls_get cc_ref (Some []) (localStorage b) of Some t \<Rightarrow> t | None \<Rightarrow> []);
          r = D_referrer b
      in if r \<noteq> [] \<and> (trail = [] \<or> last trail \<noteq> r)
         then (refTrail_append r trail,
               b\<lparr>localStorage := ls_set cc_ref_update (refTrail_append r trail) (localStorage b)\<rparr>)
         else (trail, b))"

text \<open>
  The evaluation of the script's top level, for the analytics core: the constants of the
  closure, from the configuration \<open>c\<close>, the UTM parameters \<open>u\<close> parsed from the query
  string, and the browser as it is at that moment.
\<close>

definition load_script :: "config \<Rightarrow> (string \<times> string) list \<Rightarrow> browser \<Rightarrow> script \<times> browser" where
  "load_script c u b =
     (let (trail, b') = load_refTrail b
      in (\<lparr>cfg = c, dnt = dnt_signal b, utm = u, refTrail = trail\<rparr>, b'))"

subsection \<open>Event queue and transport (lines 151-190)\<close>

definition baseEvent :: "script \<Rightarrow> draws \<Rightarrow> string \<Rightarrow> jsval \<Rightarrow> browser \<Rightarrow> event \<times> browser" where
  "baseEvent sc d type payload b =
     (let (sid, ls1) = getSessionId sc (sid_now d) (sid_uuid d) (localStorage b);
          (vid, ls2) = getVisitorId (vid_uuid d) ls1
      in (\<lparr>ev_t = type, ev_ts = ts_now d,
           ev_sid = sid, ev_vid = vid,
           ev_site = siteId (cfg sc),
           ev_url = L_href b, ev_path = L_pathname b, ev_title = D_title b,
           ev_ref = (if D_referrer b = [] then None else Some (D_referrer b)),
           ev_lang = N_language b,
           ev_tz = (if Intl_timeZone b = [] then None else Some (Intl_timeZone b)),
           ev_vp = (W_innerWidth b, W_innerHeight b),
           ev_sc = (W_scrollX b, W_scrollY b),
           ev_utm = utm sc, ev_trail = refTrail sc,
           ev_payload = payload\<rparr>,
          b\<lparr>localStorage := ls2\<rparr>))"

text \<open>Line 181: \<open>ok = !!(N.sendBeacon && N.sendBeacon(cfg.endpoint, blob))\<close> inside
  \<open>try\<close>, with \<open>ok\<close> starting as \<open>false\<close>.\<close>

definition beacon_ok :: "browser \<Rightarrow> bool" where
  "beacon_ok b = (case N_sendBeacon b of BeaconReturns r \<Rightarrow> r | _ \<Rightarrow> False)"

text \<open>Lines 174-175 of \<open>flush\<close>: the flag is set and \<open>splice\<close> takes the whole queue.\<close>

definition flush_begin :: "state \<Rightarrow> state \<times> event list" where
  "flush_begin st =
     (let st1 = st\<lparr>flushing := True\<rparr>
      in (st1\<lparr>queue := []\<rparr>, queue st1))"

text \<open>Lines 176-188 of \<open>flush\<close>: the beacon, and the \<open>fetch\<close> when the beacon is not
  accepted. With the \<open>fetch\<close> pending the function returns and the flag stays set.\<close>

definition flush_send :: "browser \<Rightarrow> event list \<Rightarrow> state \<Rightarrow> state \<times> transport option" where
  "flush_send b batch st =
     (if \<not> beacon_ok b then (st, Some (FetchPending batch))
      else (st\<lparr>flushing := False\<rparr>, Some (BeaconAccepted batch)))"

definition flush :: "script \<Rightarrow> browser \<Rightarrow> state \<Rightarrow> state \<times> transport option" where
  "flush sc b st =
     (if \<not> readyToTrack sc b \<or> flushing st \<or> queue st = [] then (st, None)
      else (let (st1, batch) = flush_begin st in flush_send b batch st1))"

text \<open>The handlers of the pending \<open>fetch\<close> (lines 184-185): \<open>catch\<close> runs when the promise
  rejects, \<open>finally\<close> runs however it settles.\<close>

definition fetch_catch :: "event list \<Rightarrow> state \<Rightarrow> state" where
  "fetch_catch batch st = st\<lparr>queue := batch @ queue st\<rparr>"

definition fetch_finally :: "state \<Rightarrow> state" where
  "fetch_finally st = st\<lparr>flushing := False\<rparr>"

definition fetch_settled :: "fetch_result \<Rightarrow> event list \<Rightarrow> state \<Rightarrow> state" where
  "fetch_settled r batch st =
     fetch_finally (case r of NetworkError \<Rightarrow> fetch_catch batch st | Response code \<Rightarrow> st)"

text \<open>\<open>enqueue\<close> (lines 167-171). The result is the state, the browser (its storage is
  written by \<open>baseEvent\<close>) and what \<open>flush\<close> handed to the network, if it ran.\<close>

definition enqueue ::
  "script \<Rightarrow> draws \<Rightarrow> string \<Rightarrow> jsval \<Rightarrow> browser \<Rightarrow> state \<Rightarrow> state \<times> browser \<times> transport option" where
  "enqueue sc d type payload b st =
     (if \<not> readyToTrack sc b then (st, b, None)
      else (let (e, b1) = baseEvent sc d type payload b;
                st1 = st\<lparr>queue := queue st @ [e]\<rparr>
            in if int (length (queue st1)) \<ge> maxBatch (cfg sc)
               then (let (st2, sent) = flush sc b1 st1 in (st2, b1, sent))
               else (st1, b1, None)))"

subsection \<open>Public entry points\<close>

text \<open>\<open>API.track\<close> (lines 454-458, \<open>W.CC.embed.track\<close>) is \<open>enqueue\<close> itself.\<close>

definition API_track ::
  "script \<Rightarrow> draws \<Rightarrow> string \<Rightarrow> jsval \<Rightarrow> browser \<Rightarrow> state \<Rightarrow> state \<times> browser \<times> transport option" where
  "API_track = enqueue"

text \<open>\<open>W.CC_EMBED.track\<close> (lines 766-772), for a \<open>type\<close> that is a string. The call
  also starts the timer of \<open>scheduleFlush\<close>, whose \<open>flush\<close> is a later step.\<close>

definition CC_EMBED_track ::
  "script \<Rightarrow> draws \<Rightarrow> string \<Rightarrow> jsval \<Rightarrow> browser \<Rightarrow> state \<Rightarrow> state \<times> browser \<times> transport option" where
  "CC_EMBED_track sc d type payload b st =
     enqueue sc d (if type = [] then ''custom'' else type)
       (if truthy payload \<and> typeof payload = ''object'' then payload else JObj []) b st"

text \<open>
  A run of \<open>enqueue\<close> calls. Each call comes with the values it draws, the browser as it is
  at that call, and its arguments; the queue state is what the calls share.
\<close>

type_synonym call = "draws \<times> browser \<times> string \<times> jsval"

definition call_event :: "script \<Rightarrow> call \<Rightarrow> event" where
  "call_event sc c = (case c of (d, b, type, payload) \<Rightarrow> fst (baseEvent sc d type payload b))"

fun enqueue_calls :: "script \<Rightarrow> call list \<Rightarrow> state \<Rightarrow> state" where
  "enqueue_calls sc [] st = st"
| "enqueue_calls sc ((d, b, type, payload) # cs) st =
     enqueue_calls sc cs (fst (enqueue sc d type payload b st))"

text \<open>The referrer trail over a run of page loads, one referrer each.\<close>

fun refTrail_appends :: "string list \<Rightarrow> string list \<Rightarrow> string list" where
  "refTrail_appends trail [] = trail"
| "refTrail_appends trail (r # rs) = refTrail_appends (refTrail_append r trail) rs"

text \<open>The last five entries of a list, for the proofs about the trail.\<close>

definition keep5 :: "'a list \<Rightarrow> 'a list" where
  "keep5 xs = drop (length xs - 5) xs"

subsection \<open>A concrete page\<close>

text \<open>
  A configuration with the defaults of lines 91-93, a browser without a do-not-track signal
  whose storage already holds a visitor and a session last touched at 6000, and the values
  drawn by a call made in that same millisecond.
\<close>

definition example_cfg :: config where
  "example_cfg =
     \<lparr>siteId = ''site-1'', endpoint = ''https://collector.example/ingest'',
      consentRequired = False, sessionTimeoutMs = 1800000, heartbeatMs = 30000,
      maxBatch = 20\<rparr>"

definition example_storage :: storage where
  "example_storage =
     \<lparr>getItem_throws = False, setItem_throws = False, cc_vid = Some ''v-1'',
      cc_sid = Some \<lparr>sess_id = ''s-1'', sess_started = 1000, sess_last = 6000\<rparr>,
      cc_consent_granted = None, cc_ref = None\<rparr>"

definition example_browser :: browser where
  "example_browser =
     \<lparr>N_doNotTrack = None, N_msDoNotTrack = None, W_doNotTrack = None,
      N_language = ''en'', N_sendBeacon = BeaconReturns True,
      L_href = ''https://host.example/a'', L_pathname = ''/a'', D_title = ''A'',
      D_referrer = [], Intl_timeZone = ''UTC'',
      W_innerWidth = 800, W_innerHeight = 600, W_scrollX = 0, W_scrollY = 0,
      localStorage = example_storage\<rparr>"

definition example_script :: script where
  "example_script = \<lparr>cfg = example_cfg, dnt = False, utm = [], refTrail = []\<rparr>"

definition example_draws :: draws where
  "example_draws = \<lparr>ts_now = 6000, sid_now = 6000, sid_uuid = ''s-2'', vid_uuid = ''v-2''\<rparr>"

definition example_state :: state where
  "example_state = \<lparr>queue = [], flushing = False\<rparr>"

text \<open>The record \<open>enqueue\<close> builds on the example page for a type and a payload.\<close>

definition example_event :: "string \<Rightarrow> jsval \<Rightarrow> event" where
  "example_event type payload =
     \<lparr>ev_t = type, ev_ts = 6000, ev_sid = ''s-1'', ev_vid = ''v-1'', ev_site = ''site-1'',
      ev_url = ''https://host.example/a'', ev_path = ''/a'', ev_title = ''A'',
      ev_ref = None, ev_lang = ''en'', ev_tz = Some ''UTC'',
      ev_vp = (800, 600), ev_sc = (0, 0), ev_utm = [], ev_trail = [],
      ev_payload = payload\<rparr>"

text \<open>The same page in a browser without \<open>sendBeacon\<close>, a script whose batch size is 2,
  and a call of \<open>enqueue\<close> on that page.\<close>

definition example_nobeacon :: browser where
  "example_nobeacon = example_browser\<lparr>N_sendBeacon := BeaconMissing\<rparr>"

definition example_small_batch :: script where
  "example_small_batch = example_script\<lparr>cfg := example_cfg\<lparr>maxBatch := 2\<rparr>\<rparr>"

definition example_call :: "string \<Rightarrow> jsval \<Rightarrow> call" where
  "example_call type payload = (example_draws, example_nobeacon, type, payload)"

section \<open>Properties\<close>

subsection \<open>Storage frame of the identity functions\<close>

lemma hasConsent_storage_ids:
  "consentRequired (cfg sc) \<longrightarrow>
     getItem_throws (localStorage b') = getItem_throws (localStorage b) \<and>
     cc_consent_granted (localStorage b') = cc_consent_granted (localStorage b) \<Longrightarrow>
   hasConsent sc b' = hasConsent sc b"
  by (auto simp: hasConsent_def ls_get_def)

lemma getSessionId_frame:
  "getItem_throws (snd (getSessionId sc n u ls)) = getItem_throws ls \<and>
   setItem_throws (snd (getSessionId sc n u ls)) = setItem_throws ls \<and>
   cc_consent_granted (snd (getSessionId sc n u ls)) = cc_consent_granted ls \<and>
   cc_vid (snd (getSessionId sc n u ls)) = cc_vid ls \<and>
   cc_ref (snd (getSessionId sc n u ls)) = cc_ref ls"
  by (simp add: getSessionId_def ls_set_def Let_def)

lemma getVisitorId_frame:
  "getItem_throws (snd (getVisitorId u ls)) = getItem_throws ls \<and>
   setItem_throws (snd (getVisitorId u ls)) = setItem_throws ls \<and>
   cc_consent_granted (snd (getVisitorId u ls)) = cc_consent_granted ls \<and>
   cc_sid (snd (getVisitorId u ls)) = cc_sid ls \<and>
   cc_ref (snd (getVisitorId u ls)) = cc_ref ls"
  by (simp add: getVisitorId_def ls_set_def split: option.splits)

lemma baseEvent_storage:
  "localStorage (snd (baseEvent sc d type payload b)) =
     snd (getVisitorId (vid_uuid d) (snd (getSessionId sc (sid_now d) (sid_uuid d) (localStorage b))))"
  by (simp add: baseEvent_def split_beta)

lemma readyToTrack_baseEvent:
  "readyToTrack sc (snd (baseEvent sc d type payload b)) = readyToTrack sc b"
  unfolding readyToTrack_def
  using hasConsent_storage_ids [of sc "snd (baseEvent sc d type payload b)" b]
  by (simp add: baseEvent_storage getVisitorId_frame getSessionId_frame)

lemma beacon_ok_baseEvent:
  "beacon_ok (snd (baseEvent sc d type payload b)) = beacon_ok b"
  by (simp add: baseEvent_def beacon_ok_def split_beta)

lemma example_ready: "readyToTrack example_script example_browser"
  by (simp add: readyToTrack_def hasConsent_def example_script_def example_cfg_def)

lemma example_baseEvent:
  "baseEvent example_script example_draws type payload example_browser =
     (example_event type payload, example_browser)"
  by (simp add: baseEvent_def getSessionId_def getVisitorId_def ls_get_def ls_set_def
      example_script_def example_cfg_def example_draws_def example_browser_def
      example_storage_def example_event_def)

subsection \<open>The privacy gate\<close>

text \<open>
  C4. For every configuration and stored consent state, the privacy gate \<open>readyToTrack\<close>
  returns exactly: not do-not-track, and (consent not required or consent granted), and the
  site id is non-empty, and the endpoint is non-empty. Consent is granted when the flag
  \<open>cc_consent_granted\<close> can be read from storage and is \<open>true\<close>.
\<close>

theorem readyToTrack_formula:
  "readyToTrack sc b =
     (\<not> dnt sc \<and>
      (\<not> consentRequired (cfg sc) \<or>
         (\<not> getItem_throws (localStorage b) \<and> cc_consent_granted (localStorage b) = Some True)) \<and>
      siteId (cfg sc) \<noteq> [] \<and> endpoint (cfg sc) \<noteq> [])"
  by (auto simp: readyToTrack_def hasConsent_def ls_get_def split: option.splits)

text \<open>On the example page the gate allows; with consent required it denies until
  \<open>consentGranted\<close> has stored the flag; with an empty site id it denies.\<close>

theorem readyToTrack_formula_witness:
  "readyToTrack example_script example_browser \<and>
   \<not> readyToTrack (example_script\<lparr>cfg := example_cfg\<lparr>consentRequired := True\<rparr>\<rparr>) example_browser \<and>
   readyToTrack (example_script\<lparr>cfg := example_cfg\<lparr>consentRequired := True\<rparr>\<rparr>)
     (consentGranted example_browser) \<and>
   \<not> readyToTrack (example_script\<lparr>cfg := example_cfg\<lparr>siteId := []\<rparr>\<rparr>) example_browser"
  using readyToTrack_formula [of example_script example_browser]
    readyToTrack_formula [of "example_script\<lparr>cfg := example_cfg\<lparr>consentRequired := True\<rparr>\<rparr>"
      example_browser]
    readyToTrack_formula [of "example_script\<lparr>cfg := example_cfg\<lparr>consentRequired := True\<rparr>\<rparr>"
      "consentGranted example_browser"]
    readyToTrack_formula [of "example_script\<lparr>cfg := example_cfg\<lparr>siteId := []\<rparr>\<rparr>" example_browser]
  by (simp add: example_script_def example_cfg_def example_browser_def example_storage_def
      consentGranted_def ls_set_def)

subsection \<open>Session expiry\<close>

text \<open>
  C2. For every stored session \<open>s\<close> (with an id) and every call time \<open>nowTs\<close>,
  \<open>getSessionId\<close> returns the stored id and stores the session with \<open>last = nowTs\<close> exactly
  when \<open>nowTs - last \<le> sessionTimeoutMs\<close>; when \<open>nowTs - last > sessionTimeoutMs\<close> it
  returns the freshly generated id \<open>u\<close> and stores a session with
  \<open>started = last = nowTs\<close>. A read at \<open>last + sessionTimeoutMs - 1\<close> keeps the id; a
  read at \<open>last + sessionTimeoutMs + 1\<close> returns the new id, which differs from the stored
  one whenever the generated id does.
\<close>

theorem getSessionId_expiry:
  assumes "\<not> getItem_throws ls" and "cc_sid ls = Some s" and "sess_id s \<noteq> []"
  shows "getSessionId sc nowTs u ls =
           (if nowTs - sess_last s \<le> sessionTimeoutMs (cfg sc)
            then (sess_id s, ls_set cc_sid_update (s\<lparr>sess_last := nowTs\<rparr>) ls)
            else (u, ls_set cc_sid_update
                       \<lparr>sess_id = u, sess_started = nowTs, sess_last = nowTs\<rparr> ls)) \<and>
         (\<not> setItem_throws ls \<longrightarrow>
            cc_sid (snd (getSessionId sc nowTs u ls)) =
              Some (if nowTs - sess_last s \<le> sessionTimeoutMs (cfg sc)
                    then s\<lparr>sess_last := nowTs\<rparr>
                    else \<lparr>sess_id = u, sess_started = nowTs, sess_last = nowTs\<rparr>)) \<and>
         fst (getSessionId sc (sess_last s + sessionTimeoutMs (cfg sc) - 1) u ls) = sess_id s \<and>
         fst (getSessionId sc (sess_last s + sessionTimeoutMs (cfg sc) + 1) u ls) = u \<and>
         (fst (getSessionId sc (sess_last s + sessionTimeoutMs (cfg sc) + 1) u ls) \<noteq> sess_id s)
           = (u \<noteq> sess_id s)"
  using assms by (simp add: getSessionId_def ls_get_def ls_set_def Let_def)

text \<open>The session of the example storage was last touched at 6000 and the timeout is
  1800000: a read at 1805999 keeps \<open>s-1\<close>, a read at 1806001 starts \<open>s-2\<close>.\<close>

theorem getSessionId_expiry_witness:
  "\<not> getItem_throws example_storage \<and>
   cc_sid example_storage = Some \<lparr>sess_id = ''s-1'', sess_started = 1000, sess_last = 6000\<rparr> \<and>
   getSessionId example_script 6500 ''s-2'' example_storage =
     (''s-1'', example_storage
        \<lparr>cc_sid := Some \<lparr>sess_id = ''s-1'', sess_started = 1000, sess_last = 6500\<rparr>\<rparr>) \<and>
   fst (getSessionId example_script 1805999 ''s-2'' example_storage) = ''s-1'' \<and>
   getSessionId example_script 1806001 ''s-2'' example_storage =
     (''s-2'', example_storage
        \<lparr>cc_sid := Some \<lparr>sess_id = ''s-2'', sess_started = 1806001, sess_last = 1806001\<rparr>\<rparr>)"
  using getSessionId_expiry [of example_storage
      "\<lparr>sess_id = ''s-1'', sess_started = 1000, sess_last = 6000\<rparr>" example_script 6500 "''s-2''"]
    getSessionId_expiry [of example_storage
      "\<lparr>sess_id = ''s-1'', sess_started = 1000, sess_last = 6000\<rparr>" example_script 1806001 "''s-2''"]
  by (simp add: example_storage_def example_script_def example_cfg_def ls_set_def)

subsection \<open>The referrer trail\<close>

lemma refTrail_append_cases:
  "length trail \<le> 5 \<Longrightarrow>
   refTrail_append r trail =
     (if r = [] \<or> (trail \<noteq> [] \<and> last trail = r) then trail
      else if length trail = 5 then tl trail @ [r] else trail @ [r])"
  by (cases trail) (auto simp: refTrail_append_def Let_def)

lemma refTrail_append_length: "length trail \<le> 5 \<Longrightarrow> length (refTrail_append r trail) \<le> 5"
  by (auto simp: refTrail_append_def Let_def)

lemma refTrail_appends_length:
  "length trail \<le> 5 \<Longrightarrow> length (refTrail_appends trail rs) \<le> 5"
  by (induction rs arbitrary: trail) (simp_all add: refTrail_append_length)

lemma refTrail_append_twice:
  "refTrail_append r (refTrail_append r trail) = refTrail_append r trail"
  by (cases trail) (auto simp: refTrail_append_def Let_def)

lemma refTrail_append_keep5:
  assumes len: "length trail \<le> 5" and r: "r \<noteq> []" and lst: "trail = [] \<or> last trail \<noteq> r"
  shows "refTrail_append r trail = keep5 (trail @ [r])"
proof -
  have app: "refTrail_append r trail = (if length trail = 5 then tl (trail @ [r]) else trail @ [r])"
    using len r lst by (auto simp: refTrail_append_def Let_def)
  have idx: "length (trail @ [r]) - 5 = (if length trail = 5 then Suc 0 else 0)"
    using len by auto
  show ?thesis
    unfolding app keep5_def idx by (cases trail) (simp_all add: drop_Suc)
qed

lemma keep5_keep5_append: "keep5 (keep5 xs @ ys) = keep5 (xs @ ys)"
proof (cases "length xs \<le> 5")
  case True
  then show ?thesis by (simp add: keep5_def)
next
  case False
  then have "length xs + length ys - (length xs - 5 + 5) + (length xs - 5) = length xs + length ys - 5"
    by arith
  then show ?thesis by (simp add: keep5_def)
qed

lemma length_keep5: "length (keep5 xs) \<le> 5"
  by (simp add: keep5_def)

lemma last_keep5_snoc: "last (keep5 (xs @ [r])) = r"
  by (simp add: keep5_def)

text \<open>Referrers that are non-empty and differ from their predecessor are all appended: the
  trail is then the last five entries of everything seen.\<close>

lemma refTrail_appends_keep5:
  "length trail \<le> 5 \<Longrightarrow> [] \<notin> set rs \<Longrightarrow> distinct rs \<Longrightarrow> rs \<noteq> [] \<Longrightarrow>
   trail = [] \<or> last trail \<noteq> hd rs \<Longrightarrow>
   refTrail_appends trail rs = keep5 (trail @ rs)"
proof (induction rs arbitrary: trail)
  case Nil
  then show ?case by simp
next
  case (Cons r rs)
  have step: "refTrail_append r trail = keep5 (trail @ [r])"
    using Cons.prems by (intro refTrail_append_keep5) auto
  show ?case
  proof (cases rs)
    case Nil
    then show ?thesis using step by simp
  next
    case (Cons r' rs')
    have "refTrail_appends (keep5 (trail @ [r])) rs = keep5 (keep5 (trail @ [r]) @ rs)"
      using Cons.prems Cons
      by (intro Cons.IH) (auto simp: length_keep5 last_keep5_snoc)
    then show ?thesis
      using step by (simp add: keep5_keep5_append)
  qed
qed

lemma refTrail_six_distinct:
  assumes "length trail \<le> 5" "length rs = 6" "distinct rs" "[] \<notin> set rs"
  shows "refTrail_appends trail rs = tl rs"
proof -
  obtain r rs' where rs: "rs = r # rs'" "length rs' = 5"
    using assms(2) by (cases rs) auto
  show ?thesis
  proof (cases "trail = [] \<or> last trail \<noteq> r")
    case True
    then have "refTrail_appends trail rs = keep5 (trail @ rs)"
      using assms rs by (intro refTrail_appends_keep5) auto
    then show ?thesis using rs assms(1) by (simp add: keep5_def)
  next
    case False
    then have "refTrail_append r trail = trail"
      by (simp add: refTrail_append_def)
    moreover have ne: "rs' \<noteq> []"
      using rs by auto
    moreover have "hd rs' \<noteq> r"
      using ne assms(3) rs by (cases rs') auto
    moreover have "refTrail_appends trail rs' = keep5 (trail @ rs')"
      using assms rs False ne \<open>hd rs' \<noteq> r\<close> by (intro refTrail_appends_keep5) auto
    ultimately show ?thesis using rs assms(1) by (simp add: keep5_def)
  qed
qed

lemma load_refTrail_is_append:
  "\<not> getItem_throws (localStorage b) \<Longrightarrow> cc_ref (localStorage b) = Some trail \<Longrightarrow>
   fst (load_refTrail b) = refTrail_append (D_referrer b) trail"
  by (simp add: load_refTrail_def ls_get_def refTrail_append_def Let_def)

text \<open>
  C6. For every referrer trail of length at most 5 and every new referrer, the append of
  lines 147-149 keeps the length at most 5, evicting the oldest entry (the head) when a
  sixth would be added; the referrer is appended only if it differs from the trail's last
  entry (and is not empty); appending the same referrer twice in a row does not grow the
  trail; and after six distinct referrers the trail is the last five of them, the oldest
  evicted. The trail the script loads from storage is extended by this append.
\<close>

theorem refTrail_bounded_fifo:
  assumes "length trail \<le> 5"
  shows "length (refTrail_append r trail) \<le> 5 \<and>
         length (refTrail_appends trail rs) \<le> 5 \<and>
         refTrail_append r trail =
           (if r = [] \<or> (trail \<noteq> [] \<and> last trail = r) then trail
            else if length trail = 5 then tl trail @ [r] else trail @ [r]) \<and>
         (refTrail_append r trail \<noteq> trail \<longrightarrow> trail = [] \<or> last trail \<noteq> r) \<and>
         refTrail_append r (refTrail_append r trail) = refTrail_append r trail \<and>
         (length rs = 6 \<and> distinct rs \<and> [] \<notin> set rs \<longrightarrow> refTrail_appends trail rs = tl rs) \<and>
         (\<not> getItem_throws (localStorage b) \<and> cc_ref (localStorage b) = Some trail \<longrightarrow>
            fst (load_refTrail b) = refTrail_append (D_referrer b) trail)"
proof (intro conjI impI)
  show "length (refTrail_append r trail) \<le> 5"
    using assms by (rule refTrail_append_length)
  show "length (refTrail_appends trail rs) \<le> 5"
    using assms by (rule refTrail_appends_length)
  show "refTrail_append r trail =
          (if r = [] \<or> (trail \<noteq> [] \<and> last trail = r) then trail
           else if length trail = 5 then tl trail @ [r] else trail @ [r])"
    using assms by (rule refTrail_append_cases)
  show "trail = [] \<or> last trail \<noteq> r" if "refTrail_append r trail \<noteq> trail"
    using that by (auto simp: refTrail_append_def)
  show "refTrail_append r (refTrail_append r trail) = refTrail_append r trail"
    by (rule refTrail_append_twice)
  show "refTrail_appends trail rs = tl rs" if "length rs = 6 \<and> distinct rs \<and> [] \<notin> set rs"
    using assms that by (intro refTrail_six_distinct) auto
  show "fst (load_refTrail b) = refTrail_append (D_referrer b) trail"
    if "\<not> getItem_throws (localStorage b) \<and> cc_ref (localStorage b) = Some trail"
    using that by (intro load_refTrail_is_append) auto
qed

text \<open>A full trail \<open>a, b, c, d, e\<close> and the referrer \<open>f\<close>: \<open>a\<close> is evicted; \<open>f\<close> again
  changes nothing; six distinct referrers from the empty trail leave the last five.\<close>

theorem refTrail_bounded_fifo_witness:
  "length [''a'', ''b'', ''c'', ''d'', ''e''] \<le> 5 \<and>
   refTrail_append ''f'' [''a'', ''b'', ''c'', ''d'', ''e''] = [''b'', ''c'', ''d'', ''e'', ''f''] \<and>
   refTrail_append ''f'' (refTrail_append ''f'' [''a'', ''b'', ''c'', ''d'', ''e''])
     = [''b'', ''c'', ''d'', ''e'', ''f''] \<and>
   refTrail_appends [] [''a'', ''b'', ''c'', ''d'', ''e'', ''f''] = [''b'', ''c'', ''d'', ''e'', ''f''] \<and>
   refTrail_appends [''a'', ''b'', ''c'', ''d'', ''e''] [''u'', ''v'', ''w'', ''x'', ''y'', ''z'']
     = [''v'', ''w'', ''x'', ''y'', ''z'']"
  using refTrail_bounded_fifo [of "[''a'', ''b'', ''c'', ''d'', ''e'']" "''f''"
      "[''u'', ''v'', ''w'', ''x'', ''y'', ''z'']" example_browser]
    refTrail_bounded_fifo [of "[]" "''f''" "[''a'', ''b'', ''c'', ''d'', ''e'', ''f'']" example_browser]
  by (simp add: refTrail_append_def)

subsection \<open>Calls the privacy gate denies\<close>

text \<open>
  C8. For every type and payload and every state in which the privacy gate denies, a call
  of \<open>enqueue\<close> is a silent no-op: it returns at line 168 with the queue, the flag and the
  browser as they were and nothing handed to the network; the queue length is unchanged.
\<close>

theorem enqueue_denied_noop:
  assumes "\<not> readyToTrack sc b"
  shows "enqueue sc d type payload b st = (st, b, None) \<and>
         length (queue (fst (enqueue sc d type payload b st))) = length (queue st)"
  using assms by (simp add: enqueue_def)

text \<open>Do-not-track sampled as set, and consent required but not granted.\<close>

theorem enqueue_denied_noop_witness:
  "\<not> readyToTrack (example_script\<lparr>dnt := True\<rparr>) example_browser \<and>
   enqueue (example_script\<lparr>dnt := True\<rparr>) example_draws ''pageview'' (JObj []) example_browser
     example_state = (example_state, example_browser, None) \<and>
   \<not> readyToTrack (example_script\<lparr>cfg := example_cfg\<lparr>consentRequired := True\<rparr>\<rparr>) example_browser \<and>
   enqueue (example_script\<lparr>cfg := example_cfg\<lparr>consentRequired := True\<rparr>\<rparr>) example_draws
     ''pageview'' (JStr ''malformed'') example_browser example_state
     = (example_state, example_browser, None)"
  using enqueue_denied_noop [of "example_script\<lparr>dnt := True\<rparr>" example_browser example_draws
      "''pageview''" "JObj []" example_state]
    enqueue_denied_noop [of "example_script\<lparr>cfg := example_cfg\<lparr>consentRequired := True\<rparr>\<rparr>"
      example_browser example_draws "''pageview''" "JStr ''malformed''" example_state]
  by (simp add: readyToTrack_def hasConsent_def ls_get_def example_script_def example_cfg_def
      example_browser_def example_storage_def)

text \<open>
  C10. When the privacy gate denies, a call of \<open>enqueue\<close> neither reads nor writes the
  identity: the stored visitor id and the stored session (its id and its last-touch time)
  are what they were, and the outcome of the call is the same whatever identity the storage
  holds.
\<close>

theorem enqueue_denied_identity_untouched:
  assumes "\<not> readyToTrack sc b"
  shows "cc_vid (localStorage (fst (snd (enqueue sc d type payload b st)))) = cc_vid (localStorage b) \<and>
         cc_sid (localStorage (fst (snd (enqueue sc d type payload b st)))) = cc_sid (localStorage b) \<and>
         localStorage (fst (snd (enqueue sc d type payload b st))) = localStorage b \<and>
         enqueue sc d type payload (b\<lparr>localStorage := (localStorage b)\<lparr>cc_vid := v, cc_sid := s\<rparr>\<rparr>) st
           = (st, b\<lparr>localStorage := (localStorage b)\<lparr>cc_vid := v, cc_sid := s\<rparr>\<rparr>, None)"
proof -
  have "hasConsent sc (b\<lparr>localStorage := (localStorage b)\<lparr>cc_vid := v, cc_sid := s\<rparr>\<rparr>) = hasConsent sc b"
    by (intro hasConsent_storage_ids) simp
  then have "\<not> readyToTrack sc (b\<lparr>localStorage := (localStorage b)\<lparr>cc_vid := v, cc_sid := s\<rparr>\<rparr>)"
    using assms by (simp add: readyToTrack_def)
  then show ?thesis
    using assms by (simp add: enqueue_def)
qed

text \<open>With do-not-track sampled as set, a call at 9999999, long after the stored session
  expired, leaves the session \<open>s-1\<close> and its last touch 6000 in place.\<close>

theorem enqueue_denied_identity_untouched_witness:
  "\<not> readyToTrack (example_script\<lparr>dnt := True\<rparr>) example_browser \<and>
   cc_sid (localStorage (fst (snd (enqueue (example_script\<lparr>dnt := True\<rparr>)
       (example_draws\<lparr>sid_now := 9999999\<rparr>) ''pageview'' (JObj []) example_browser example_state))))
     = Some \<lparr>sess_id = ''s-1'', sess_started = 1000, sess_last = 6000\<rparr> \<and>
   cc_vid (localStorage (fst (snd (enqueue (example_script\<lparr>dnt := True\<rparr>)
       (example_draws\<lparr>sid_now := 9999999\<rparr>) ''pageview'' (JObj []) example_browser example_state))))
     = Some ''v-1''"
  using enqueue_denied_identity_untouched [of "example_script\<lparr>dnt := True\<rparr>" example_browser
      "example_draws\<lparr>sid_now := 9999999\<rparr>" "''pageview''" "JObj []" example_state]
  by (simp add: readyToTrack_def example_script_def example_browser_def example_storage_def)

subsection \<open>What flush and enqueue do to the queue\<close>

lemma flush_noop:
  "\<not> readyToTrack sc b \<or> flushing st \<or> queue st = [] \<Longrightarrow> flush sc b st = (st, None)"
  by (auto simp: flush_def)

lemma flush_runs:
  "readyToTrack sc b \<Longrightarrow> \<not> flushing st \<Longrightarrow> queue st \<noteq> [] \<Longrightarrow>
   flush sc b st =
     (if beacon_ok b then (st\<lparr>queue := [], flushing := False\<rparr>, Some (BeaconAccepted (queue st)))
      else (st\<lparr>queue := [], flushing := True\<rparr>, Some (FetchPending (queue st))))"
  by (simp add: flush_def flush_begin_def flush_send_def)

lemma enqueue_below:
  "readyToTrack sc b \<Longrightarrow> int (length (queue st)) + 1 < maxBatch (cfg sc) \<Longrightarrow>
   enqueue sc d type payload b st =
     (st\<lparr>queue := queue st @ [fst (baseEvent sc d type payload b)]\<rparr>,
      snd (baseEvent sc d type payload b), None)"
  by (simp add: enqueue_def split_beta Let_def)

lemma enqueue_while_flushing:
  "readyToTrack sc b \<Longrightarrow> flushing st \<Longrightarrow>
   enqueue sc d type payload b st =
     (st\<lparr>queue := queue st @ [fst (baseEvent sc d type payload b)]\<rparr>,
      snd (baseEvent sc d type payload b), None)"
  by (simp add: enqueue_def split_beta Let_def flush_def)

lemma enqueue_at_batch:
  "readyToTrack sc b \<Longrightarrow> \<not> flushing st \<Longrightarrow> maxBatch (cfg sc) \<le> int (length (queue st)) + 1 \<Longrightarrow>
   enqueue sc d type payload b st =
     (if beacon_ok b
      then (st\<lparr>queue := [], flushing := False\<rparr>, snd (baseEvent sc d type payload b),
            Some (BeaconAccepted (queue st @ [fst (baseEvent sc d type payload b)])))
      else (st\<lparr>queue := [], flushing := True\<rparr>, snd (baseEvent sc d type payload b),
            Some (FetchPending (queue st @ [fst (baseEvent sc d type payload b)]))))"
  by (simp add: enqueue_def split_beta Let_def flush_def flush_begin_def flush_send_def
      readyToTrack_baseEvent beacon_ok_baseEvent)

text \<open>While a \<open>fetch\<close> is pending, and while the queue stays below the batch size, a run
  of calls only appends. Both by induction on the run, the state generalised.\<close>

lemma enqueue_calls_while_flushing:
  "flushing st \<Longrightarrow> \<forall>c \<in> set cs. readyToTrack sc (fst (snd c)) \<Longrightarrow>
   enqueue_calls sc cs st = st\<lparr>queue := queue st @ map (call_event sc) cs\<rparr>"
proof (induction cs arbitrary: st)
  case Nil
  then show ?case by simp
next
  case (Cons c cs)
  obtain d b type payload where c: "c = (d, b, type, payload)"
    by (cases c) auto
  have ready: "readyToTrack sc b"
    using Cons.prems(2) c by simp
  have step: "fst (enqueue sc d type payload b st) = st\<lparr>queue := queue st @ [call_event sc c]\<rparr>"
    using ready Cons.prems(1) by (simp add: enqueue_while_flushing call_event_def c)
  have "enqueue_calls sc cs (st\<lparr>queue := queue st @ [call_event sc c]\<rparr>) =
          (st\<lparr>queue := queue st @ [call_event sc c]\<rparr>)
            \<lparr>queue := queue (st\<lparr>queue := queue st @ [call_event sc c]\<rparr>) @ map (call_event sc) cs\<rparr>"
    using Cons.prems by (intro Cons.IH) auto
  then show ?case
    using step by (simp add: c)
qed

lemma enqueue_calls_below:
  "int (length (queue st)) + int (length cs) < maxBatch (cfg sc) \<Longrightarrow>
   \<forall>c \<in> set cs. readyToTrack sc (fst (snd c)) \<Longrightarrow>
   enqueue_calls sc cs st = st\<lparr>queue := queue st @ map (call_event sc) cs\<rparr>"
proof (induction cs arbitrary: st)
  case Nil
  then show ?case by simp
next
  case (Cons c cs)
  obtain d b type payload where c: "c = (d, b, type, payload)"
    by (cases c) auto
  have ready: "readyToTrack sc b"
    using Cons.prems(2) c by simp
  have step: "fst (enqueue sc d type payload b st) = st\<lparr>queue := queue st @ [call_event sc c]\<rparr>"
    using ready Cons.prems(1) by (simp add: enqueue_below call_event_def c)
  have "enqueue_calls sc cs (st\<lparr>queue := queue st @ [call_event sc c]\<rparr>) =
          (st\<lparr>queue := queue st @ [call_event sc c]\<rparr>)
            \<lparr>queue := queue (st\<lparr>queue := queue st @ [call_event sc c]\<rparr>) @ map (call_event sc) cs\<rparr>"
    using Cons.prems by (intro Cons.IH) auto
  then show ?case
    using step by (simp add: c)
qed

lemma call_event_type_payload:
  "map (\<lambda>e. (ev_t e, ev_payload e)) (map (call_event sc) cs) = map (\<lambda>c. snd (snd c)) cs"
  by (induction cs) (auto simp: call_event_def baseEvent_def split_beta)

lemma fetch_settled_rejected:
  "fetch_settled NetworkError batch st = st\<lparr>queue := batch @ queue st, flushing := False\<rparr>"
  by (simp add: fetch_settled_def fetch_catch_def fetch_finally_def)

lemma fetch_settled_response:
  "fetch_settled (Response code) batch st = st\<lparr>flushing := False\<rparr>"
  by (simp add: fetch_settled_def fetch_finally_def)

lemma fetch_settled_clears_flag: "flushing (fetch_settled r batch st) = False"
  by (cases r) (simp_all add: fetch_settled_rejected fetch_settled_response)

text \<open>The example page, evaluated.\<close>

lemma example_nobeacon_ready:
  "readyToTrack example_script example_nobeacon \<and> readyToTrack example_small_batch example_nobeacon"
  by (simp add: readyToTrack_def hasConsent_def example_script_def example_small_batch_def
      example_cfg_def)

lemma example_dnt_denies: "\<not> readyToTrack (example_script\<lparr>dnt := True\<rparr>) b"
  by (simp add: readyToTrack_def)

lemma example_nobeacon_not_ok: "\<not> beacon_ok example_nobeacon"
  by (simp add: beacon_ok_def example_nobeacon_def)

lemma example_nobeacon_baseEvent:
  "baseEvent example_script example_draws type payload example_nobeacon =
     (example_event type payload, example_nobeacon) \<and>
   baseEvent example_small_batch example_draws type payload example_nobeacon =
     (example_event type payload, example_nobeacon)"
  by (simp add: baseEvent_def getSessionId_def getVisitorId_def ls_get_def ls_set_def
      example_script_def example_small_batch_def example_cfg_def example_draws_def
      example_nobeacon_def example_browser_def example_storage_def example_event_def)

lemma example_call_event:
  "call_event example_script (example_call type payload) = example_event type payload \<and>
   call_event example_small_batch (example_call type payload) = example_event type payload"
  by (simp add: call_event_def example_call_def example_nobeacon_baseEvent)

lemma example_call_ready:
  "readyToTrack example_script (fst (snd (example_call type payload))) \<and>
   readyToTrack example_small_batch (fst (snd (example_call type payload)))"
  by (simp add: example_call_def example_nobeacon_ready)

lemma example_maxBatch:
  "maxBatch (cfg example_script) = 20 \<and> maxBatch (cfg example_small_batch) = 2"
  by (simp add: example_script_def example_small_batch_def example_cfg_def)

lemma example_enqueue_small_batch:
  "enqueue example_small_batch example_draws type payload example_nobeacon st =
     (if flushing st \<or> length (queue st) = 0
      then (st\<lparr>queue := queue st @ [example_event type payload]\<rparr>, example_nobeacon, None)
      else (st\<lparr>queue := [], flushing := True\<rparr>, example_nobeacon,
            Some (FetchPending (queue st @ [example_event type payload]))))"
proof (cases "flushing st")
  case True
  then show ?thesis
    using enqueue_while_flushing [of example_small_batch example_nobeacon st example_draws type payload]
    by (simp add: example_nobeacon_ready example_nobeacon_baseEvent)
next
  case False
  show ?thesis
  proof (cases "length (queue st) = 0")
    case True
    then show ?thesis
      using enqueue_below [of example_small_batch example_nobeacon st example_draws type payload]
      by (simp add: example_nobeacon_ready example_nobeacon_baseEvent example_maxBatch)
  next
    case nonempty: False
    then have "maxBatch (cfg example_small_batch) \<le> int (length (queue st)) + 1"
      by (cases "queue st") (simp_all add: example_maxBatch)
    then show ?thesis
      using enqueue_at_batch [of example_small_batch example_nobeacon st example_draws type payload]
        False nonempty
      by (simp add: example_nobeacon_ready example_nobeacon_baseEvent example_nobeacon_not_ok)
  qed
qed

subsection \<open>The flush protocol\<close>

text \<open>
  C5. \<open>flush\<close> is a no-op (the queue and the flag unchanged, nothing sent) whenever the
  privacy gate denies, a flush is in progress, or the queue is empty. Otherwise it sets
  \<open>flushing\<close> and takes all queued records as one batch, which is what it sends. Records
  enqueued while the \<open>fetch\<close> is pending are not part of that batch: they are the whole
  queue when the \<open>fetch\<close> has been answered, and a later flush sends them.
\<close>

theorem flush_snapshot:
  "(\<not> readyToTrack sc b \<or> flushing st \<or> queue st = [] \<longrightarrow> flush sc b st = (st, None)) \<and>
   (readyToTrack sc b \<and> \<not> flushing st \<and> queue st \<noteq> [] \<longrightarrow>
      flush_begin st = (st\<lparr>flushing := True, queue := []\<rparr>, queue st) \<and>
      flush sc b st = flush_send b (queue st) (st\<lparr>flushing := True, queue := []\<rparr>) \<and>
      flush sc b st =
        (if beacon_ok b
         then (st\<lparr>queue := [], flushing := False\<rparr>, Some (BeaconAccepted (queue st)))
         else (st\<lparr>queue := [], flushing := True\<rparr>, Some (FetchPending (queue st))))) \<and>
   (readyToTrack sc b \<and> \<not> flushing st \<and> queue st \<noteq> [] \<and> \<not> beacon_ok b \<and>
    (\<forall>c \<in> set cs. readyToTrack sc (fst (snd c))) \<longrightarrow>
      snd (flush sc b st) = Some (FetchPending (queue st)) \<and>
      enqueue_calls sc cs (fst (flush sc b st))
        = st\<lparr>queue := map (call_event sc) cs, flushing := True\<rparr> \<and>
      fetch_settled (Response code) (queue st) (enqueue_calls sc cs (fst (flush sc b st)))
        = st\<lparr>queue := map (call_event sc) cs, flushing := False\<rparr> \<and>
      (cs \<noteq> [] \<and> readyToTrack sc b' \<and> beacon_ok b' \<longrightarrow>
         flush sc b' (st\<lparr>queue := map (call_event sc) cs, flushing := False\<rparr>)
           = (st\<lparr>queue := [], flushing := False\<rparr>, Some (BeaconAccepted (map (call_event sc) cs)))))"
proof (intro conjI impI)
  assume "\<not> readyToTrack sc b \<or> flushing st \<or> queue st = []"
  then show "flush sc b st = (st, None)"
    by (rule flush_noop)
next
  assume run: "readyToTrack sc b \<and> \<not> flushing st \<and> queue st \<noteq> []"
  show "flush_begin st = (st\<lparr>flushing := True, queue := []\<rparr>, queue st)"
    by (simp add: flush_begin_def)
  show "flush sc b st = flush_send b (queue st) (st\<lparr>flushing := True, queue := []\<rparr>)"
    using run by (simp add: flush_def flush_begin_def)
  show "flush sc b st =
          (if beacon_ok b
           then (st\<lparr>queue := [], flushing := False\<rparr>, Some (BeaconAccepted (queue st)))
           else (st\<lparr>queue := [], flushing := True\<rparr>, Some (FetchPending (queue st))))"
    using run by (simp add: flush_runs)
next
  assume pend: "readyToTrack sc b \<and> \<not> flushing st \<and> queue st \<noteq> [] \<and> \<not> beacon_ok b \<and>
    (\<forall>c \<in> set cs. readyToTrack sc (fst (snd c)))"
  then have fl: "flush sc b st = (st\<lparr>queue := [], flushing := True\<rparr>, Some (FetchPending (queue st)))"
    by (simp add: flush_runs)
  show "snd (flush sc b st) = Some (FetchPending (queue st))"
    by (simp add: fl)
  have calls: "enqueue_calls sc cs (st\<lparr>queue := [], flushing := True\<rparr>)
                 = st\<lparr>queue := map (call_event sc) cs, flushing := True\<rparr>"
    using pend enqueue_calls_while_flushing [of "st\<lparr>queue := [], flushing := True\<rparr>" cs sc]
    by simp
  show "enqueue_calls sc cs (fst (flush sc b st))
          = st\<lparr>queue := map (call_event sc) cs, flushing := True\<rparr>"
    by (simp add: fl calls)
  show "fetch_settled (Response code) (queue st) (enqueue_calls sc cs (fst (flush sc b st)))
          = st\<lparr>queue := map (call_event sc) cs, flushing := False\<rparr>"
    by (simp add: fl calls fetch_settled_response)
  show "flush sc b' (st\<lparr>queue := map (call_event sc) cs, flushing := False\<rparr>)
          = (st\<lparr>queue := [], flushing := False\<rparr>, Some (BeaconAccepted (map (call_event sc) cs)))"
    if "cs \<noteq> [] \<and> readyToTrack sc b' \<and> beacon_ok b'"
    using that by (simp add: flush_runs)
qed

text \<open>Two records are queued and the beacon is missing: the flush takes both and leaves a
  \<open>fetch\<close> pending; a heartbeat enqueued meanwhile is alone in the queue once the server
  has answered 200. A flush while the first is pending, a flush of an empty queue and a
  flush with do-not-track sampled as set do nothing.\<close>

theorem flush_snapshot_witness:
  "flush example_script example_nobeacon
     \<lparr>queue = [example_event ''pageview'' (JObj []), example_event ''scroll'' (JObj [])],
      flushing = False\<rparr>
     = (\<lparr>queue = [], flushing = True\<rparr>,
        Some (FetchPending [example_event ''pageview'' (JObj []), example_event ''scroll'' (JObj [])])) \<and>
   fetch_settled (Response 200)
     [example_event ''pageview'' (JObj []), example_event ''scroll'' (JObj [])]
     (enqueue_calls example_script [example_call ''hb'' (JObj [])] \<lparr>queue = [], flushing = True\<rparr>)
     = \<lparr>queue = [example_event ''hb'' (JObj [])], flushing = False\<rparr> \<and>
   flush example_script example_nobeacon \<lparr>queue = [example_event ''hb'' (JObj [])], flushing = True\<rparr>
     = (\<lparr>queue = [example_event ''hb'' (JObj [])], flushing = True\<rparr>, None) \<and>
   flush example_script example_nobeacon \<lparr>queue = [], flushing = False\<rparr>
     = (\<lparr>queue = [], flushing = False\<rparr>, None) \<and>
   flush (example_script\<lparr>dnt := True\<rparr>) example_nobeacon
     \<lparr>queue = [example_event ''hb'' (JObj [])], flushing = False\<rparr>
     = (\<lparr>queue = [example_event ''hb'' (JObj [])], flushing = False\<rparr>, None)"
  using flush_snapshot [of example_script example_nobeacon
      "\<lparr>queue = [example_event ''pageview'' (JObj []), example_event ''scroll'' (JObj [])],
        flushing = False\<rparr>" "[example_call ''hb'' (JObj [])]" 200 example_browser]
    flush_snapshot [of "example_script\<lparr>dnt := True\<rparr>" example_nobeacon
      "\<lparr>queue = [example_event ''hb'' (JObj [])], flushing = False\<rparr>" "[]" 200 example_browser]
    flush_snapshot [of example_script example_nobeacon
      "\<lparr>queue = [example_event ''hb'' (JObj [])], flushing = True\<rparr>" "[]" 200 example_browser]
    flush_snapshot [of example_script example_nobeacon "\<lparr>queue = [], flushing = False\<rparr>" "[]" 200
      example_browser]
  by (simp add: example_nobeacon_ready example_nobeacon_not_ok example_call_ready
      example_call_event flush_def flush_begin_def flush_send_def fetch_settled_response
      enqueue_calls_while_flushing example_dnt_denies)

text \<open>
  The rejection path of the fallback \<open>fetch\<close>. When the promise rejects (a network error),
  \<open>catch\<close> puts the whole batch back at the front of the queue, in its order and ahead of
  the records enqueued meanwhile; \<open>finally\<close> clears the flag however the promise settles;
  and the next flush that runs takes all of those records, each once and in order, as its
  batch.
\<close>

lemma flush_requeue_when_rejected:
  assumes "readyToTrack sc b" and "\<not> flushing st" and "queue st \<noteq> []" and "\<not> beacon_ok b"
    and "\<forall>c \<in> set cs. readyToTrack sc (fst (snd c))"
    and "readyToTrack sc b'"
  shows "flush sc b st = (st\<lparr>queue := [], flushing := True\<rparr>, Some (FetchPending (queue st))) \<and>
         enqueue_calls sc cs (fst (flush sc b st))
           = st\<lparr>queue := map (call_event sc) cs, flushing := True\<rparr> \<and>
         fetch_settled NetworkError (queue st) (enqueue_calls sc cs (fst (flush sc b st)))
           = st\<lparr>queue := queue st @ map (call_event sc) cs, flushing := False\<rparr> \<and>
         (\<forall>r. flushing (fetch_settled r (queue st) (enqueue_calls sc cs (fst (flush sc b st))))
                = False) \<and>
         flush sc b' (st\<lparr>queue := queue st @ map (call_event sc) cs, flushing := False\<rparr>)
           = (if beacon_ok b'
              then (st\<lparr>queue := [], flushing := False\<rparr>,
                    Some (BeaconAccepted (queue st @ map (call_event sc) cs)))
              else (st\<lparr>queue := [], flushing := True\<rparr>,
                    Some (FetchPending (queue st @ map (call_event sc) cs))))"
proof -
  have fl: "flush sc b st = (st\<lparr>queue := [], flushing := True\<rparr>, Some (FetchPending (queue st)))"
    using assms(1-4) by (simp add: flush_runs)
  have calls: "enqueue_calls sc cs (st\<lparr>queue := [], flushing := True\<rparr>)
                 = st\<lparr>queue := map (call_event sc) cs, flushing := True\<rparr>"
    using assms(5) enqueue_calls_while_flushing [of "st\<lparr>queue := [], flushing := True\<rparr>" cs sc]
    by simp
  have retry: "flush sc b' (st\<lparr>queue := queue st @ map (call_event sc) cs, flushing := False\<rparr>)
           = (if beacon_ok b'
              then (st\<lparr>queue := [], flushing := False\<rparr>,
                    Some (BeaconAccepted (queue st @ map (call_event sc) cs)))
              else (st\<lparr>queue := [], flushing := True\<rparr>,
                    Some (FetchPending (queue st @ map (call_event sc) cs))))"
    using assms(3,6) by (simp add: flush_runs)
  show ?thesis
    by (simp add: fl calls retry fetch_settled_rejected fetch_settled_clears_flag)
qed

text \<open>
  C1. If the flush's fallback POST fails (network error, non-2xx, or unknown), the whole
  batch is to be put back at the front of the queue. On the example page three records are
  enqueued and flushed without a beacon, which leaves the \<open>fetch\<close> pending with the three
  as its batch. When the server answers 500 the promise is fulfilled, \<open>catch\<close> (line 184,
  \<open>requeue on failure\<close>) does not run, and the queue is empty afterwards: the three records
  are neither delivered nor queued. On a network error the same batch is back in the queue.
\<close>

theorem flush_non_2xx_drops_batch:
  "enqueue_calls example_script
     [example_call ''pageview'' (JObj []), example_call ''scroll'' (JObj []),
      example_call ''click'' (JObj [])] example_state
     = \<lparr>queue = [example_event ''pageview'' (JObj []), example_event ''scroll'' (JObj []),
                 example_event ''click'' (JObj [])], flushing = False\<rparr> \<and>
   flush example_script example_nobeacon
     \<lparr>queue = [example_event ''pageview'' (JObj []), example_event ''scroll'' (JObj []),
               example_event ''click'' (JObj [])], flushing = False\<rparr>
     = (\<lparr>queue = [], flushing = True\<rparr>,
        Some (FetchPending [example_event ''pageview'' (JObj []), example_event ''scroll'' (JObj []),
               example_event ''click'' (JObj [])])) \<and>
   fetch_settled (Response 500)
     [example_event ''pageview'' (JObj []), example_event ''scroll'' (JObj []),
      example_event ''click'' (JObj [])]
     \<lparr>queue = [], flushing = True\<rparr>
     = \<lparr>queue = [], flushing = False\<rparr> \<and>
   fetch_settled NetworkError
     [example_event ''pageview'' (JObj []), example_event ''scroll'' (JObj []),
      example_event ''click'' (JObj [])]
     \<lparr>queue = [], flushing = True\<rparr>
     = \<lparr>queue = [example_event ''pageview'' (JObj []), example_event ''scroll'' (JObj []),
                 example_event ''click'' (JObj [])], flushing = False\<rparr>"
proof -
  have "enqueue_calls example_script
     [example_call ''pageview'' (JObj []), example_call ''scroll'' (JObj []),
      example_call ''click'' (JObj [])] example_state
     = example_state\<lparr>queue := queue example_state @ map (call_event example_script)
         [example_call ''pageview'' (JObj []), example_call ''scroll'' (JObj []),
          example_call ''click'' (JObj [])]\<rparr>"
    by (intro enqueue_calls_below) (simp_all add: example_maxBatch example_state_def example_call_ready)
  then show ?thesis
    by (simp add: example_state_def example_call_event flush_runs example_nobeacon_ready
        example_nobeacon_not_ok fetch_settled_response fetch_settled_rejected)
qed

text \<open>The same run in one piece: after the three calls, the flush and the answer 500, the
  queue is empty.\<close>

theorem flush_non_2xx_drops_batch_witness:
  "queue (fetch_settled (Response 500)
     [example_event ''pageview'' (JObj []), example_event ''scroll'' (JObj []),
      example_event ''click'' (JObj [])]
     (fst (flush example_script example_nobeacon
        (enqueue_calls example_script
           [example_call ''pageview'' (JObj []), example_call ''scroll'' (JObj []),
            example_call ''click'' (JObj [])] example_state)))) = []"
  using flush_non_2xx_drops_batch by simp

subsection \<open>Batching in enqueue\<close>

text \<open>
  C3, as the code has it. While tracking is allowed and no flush is in flight, an
  \<open>enqueue\<close> call that brings the queue length to the maximum batch size (or beyond) runs
  \<open>flush\<close> before it returns: the queue is empty on return and the batch handed to the
  network is the whole queue with the new record last, whether the beacon took it or the
  fallback POST is pending. Starting from an empty queue, \<open>N\<close> calls with \<open>N\<close> below the
  batch size leave exactly the \<open>N\<close> records of the calls, in call order.
\<close>

theorem enqueue_batching:
  "(readyToTrack sc b \<and> \<not> flushing st \<and> maxBatch (cfg sc) \<le> int (length (queue st)) + 1 \<longrightarrow>
      queue (fst (enqueue sc d type payload b st)) = [] \<and>
      flushing (fst (enqueue sc d type payload b st)) = (\<not> beacon_ok b) \<and>
      snd (snd (enqueue sc d type payload b st)) =
        Some ((if beacon_ok b then BeaconAccepted else FetchPending)
                (queue st @ [fst (baseEvent sc d type payload b)]))) \<and>
   ((\<forall>c \<in> set cs. readyToTrack sc (fst (snd c))) \<and> int (length cs) < maxBatch (cfg sc) \<longrightarrow>
      queue (enqueue_calls sc cs (st\<lparr>queue := []\<rparr>)) = map (call_event sc) cs \<and>
      length (queue (enqueue_calls sc cs (st\<lparr>queue := []\<rparr>))) = length cs \<and>
      map (\<lambda>e. (ev_t e, ev_payload e)) (queue (enqueue_calls sc cs (st\<lparr>queue := []\<rparr>)))
        = map (\<lambda>c. snd (snd c)) cs)"
proof (intro conjI impI)
  assume full: "readyToTrack sc b \<and> \<not> flushing st \<and> maxBatch (cfg sc) \<le> int (length (queue st)) + 1"
  then have eq: "enqueue sc d type payload b st =
     (if beacon_ok b
      then (st\<lparr>queue := [], flushing := False\<rparr>, snd (baseEvent sc d type payload b),
            Some (BeaconAccepted (queue st @ [fst (baseEvent sc d type payload b)])))
      else (st\<lparr>queue := [], flushing := True\<rparr>, snd (baseEvent sc d type payload b),
            Some (FetchPending (queue st @ [fst (baseEvent sc d type payload b)]))))"
    by (intro enqueue_at_batch) auto
  show "queue (fst (enqueue sc d type payload b st)) = []"
    by (simp add: eq)
  show "flushing (fst (enqueue sc d type payload b st)) = (\<not> beacon_ok b)"
    by (simp add: eq)
  show "snd (snd (enqueue sc d type payload b st)) =
          Some ((if beacon_ok b then BeaconAccepted else FetchPending)
                  (queue st @ [fst (baseEvent sc d type payload b)]))"
    by (simp add: eq)
next
  assume few: "(\<forall>c \<in> set cs. readyToTrack sc (fst (snd c))) \<and> int (length cs) < maxBatch (cfg sc)"
  then have eq: "enqueue_calls sc cs (st\<lparr>queue := []\<rparr>) = st\<lparr>queue := map (call_event sc) cs\<rparr>"
    using enqueue_calls_below [of "st\<lparr>queue := []\<rparr>" cs sc] by simp
  show "queue (enqueue_calls sc cs (st\<lparr>queue := []\<rparr>)) = map (call_event sc) cs"
    by (simp add: eq)
  show "length (queue (enqueue_calls sc cs (st\<lparr>queue := []\<rparr>))) = length cs"
    by (simp add: eq)
  show "map (\<lambda>e. (ev_t e, ev_payload e)) (queue (enqueue_calls sc cs (st\<lparr>queue := []\<rparr>)))
          = map (\<lambda>c. snd (snd c)) cs"
    using call_event_type_payload [of sc cs] by (simp add: eq)
qed

text \<open>With a batch size of 2, the second call flushes both records and returns with an
  empty queue; with the default batch size of 20, three calls leave their three records.\<close>

theorem enqueue_batching_witness:
  "readyToTrack example_small_batch example_nobeacon \<and>
   enqueue example_small_batch example_draws ''scroll'' (JObj []) example_nobeacon
     \<lparr>queue = [example_event ''pageview'' (JObj [])], flushing = False\<rparr>
     = (\<lparr>queue = [], flushing = True\<rparr>, example_nobeacon,
        Some (FetchPending [example_event ''pageview'' (JObj []), example_event ''scroll'' (JObj [])])) \<and>
   int (length [example_call ''pageview'' (JObj []), example_call ''scroll'' (JNum 40),
                example_call ''click'' (JStr ''x'')]) < maxBatch (cfg example_script) \<and>
   queue (enqueue_calls example_script
      [example_call ''pageview'' (JObj []), example_call ''scroll'' (JNum 40),
       example_call ''click'' (JStr ''x'')] example_state)
     = [example_event ''pageview'' (JObj []), example_event ''scroll'' (JNum 40),
        example_event ''click'' (JStr ''x'')]"
  using enqueue_batching [of example_small_batch example_nobeacon
      "\<lparr>queue = [example_event ''pageview'' (JObj [])], flushing = False\<rparr>"
      example_draws "''scroll''" "JObj []" "[]"]
    enqueue_batching [of example_script example_nobeacon example_state
      example_draws "''scroll''" "JObj []"
      "[example_call ''pageview'' (JObj []), example_call ''scroll'' (JNum 40),
        example_call ''click'' (JStr ''x'')]"]
  by (simp add: example_nobeacon_ready example_nobeacon_not_ok example_call_ready
      example_call_event example_maxBatch example_state_def example_enqueue_small_batch)

text \<open>
  C3, as the claim has it, fails in a state with a flush in flight. With a batch size of 2
  and no beacon, two calls fill the queue and the flush leaves a \<open>fetch\<close> pending; two more
  calls bring the queue length to the batch size again, \<open>flush\<close> returns at its guard
  (line 173), and \<open>enqueue\<close> returns with both records still queued.
\<close>

theorem enqueue_while_pending_counterexample:
  "readyToTrack example_small_batch example_nobeacon \<and>
   maxBatch (cfg example_small_batch) = 2 \<and>
   enqueue_calls example_small_batch
     [example_call ''a'' (JObj []), example_call ''b'' (JObj [])] example_state
     = \<lparr>queue = [], flushing = True\<rparr> \<and>
   enqueue example_small_batch example_draws ''d'' (JObj []) example_nobeacon
     \<lparr>queue = [example_event ''c'' (JObj [])], flushing = True\<rparr>
     = (\<lparr>queue = [example_event ''c'' (JObj []), example_event ''d'' (JObj [])], flushing = True\<rparr>,
        example_nobeacon, None) \<and>
   enqueue_calls example_small_batch
     [example_call ''a'' (JObj []), example_call ''b'' (JObj []),
      example_call ''c'' (JObj []), example_call ''d'' (JObj [])] example_state
     = \<lparr>queue = [example_event ''c'' (JObj []), example_event ''d'' (JObj [])], flushing = True\<rparr>"
  by (simp add: example_nobeacon_ready example_maxBatch example_call_def example_state_def
      example_enqueue_small_batch)

subsection \<open>When the gate's inputs are read\<close>

lemma load_script_consts:
  "cfg (fst (load_script c u b0)) = c \<and> dnt (fst (load_script c u b0)) = dnt_signal b0 \<and>
   utm (fst (load_script c u b0)) = u"
  by (simp add: load_script_def split_beta)

text \<open>
  C7, as the code has it. The consent flag is read from storage at every evaluation of
  the gate, but the do-not-track signal is not: line 123 samples it once, when the script is
  evaluated, into the constant \<open>dnt\<close>, and every later evaluation uses that sample. So the
  gate's result is a function of the do-not-track signal at load time \<open>b0\<close> and of the
  storage at call time \<open>b\<close>; changing the browser's do-not-track indicators at call time
  changes nothing; and consent granted between two calls is seen by the later call.
\<close>

theorem readyToTrack_dnt_sampled_at_load:
  "readyToTrack (fst (load_script c u b0)) b =
     (\<not> dnt_signal b0 \<and> hasConsent (fst (load_script c u b0)) b \<and> siteId c \<noteq> [] \<and> endpoint c \<noteq> []) \<and>
   readyToTrack sc (b\<lparr>N_doNotTrack := x, N_msDoNotTrack := y, W_doNotTrack := z\<rparr>)
     = readyToTrack sc b \<and>
   (consentRequired c \<and> \<not> dnt_signal b0 \<and> siteId c \<noteq> [] \<and> endpoint c \<noteq> [] \<and>
    \<not> getItem_throws (localStorage b) \<and> \<not> setItem_throws (localStorage b) \<and>
    cc_consent_granted (localStorage b) \<noteq> Some True \<longrightarrow>
      \<not> readyToTrack (fst (load_script c u b0)) b \<and>
      readyToTrack (fst (load_script c u b0)) (consentGranted b))"
proof (intro conjI impI)
  show "readyToTrack (fst (load_script c u b0)) b =
     (\<not> dnt_signal b0 \<and> hasConsent (fst (load_script c u b0)) b \<and> siteId c \<noteq> [] \<and> endpoint c \<noteq> [])"
    by (simp add: readyToTrack_def load_script_consts)
  have "hasConsent sc (b\<lparr>N_doNotTrack := x, N_msDoNotTrack := y, W_doNotTrack := z\<rparr>) = hasConsent sc b"
    by (intro hasConsent_storage_ids) simp
  then show "readyToTrack sc (b\<lparr>N_doNotTrack := x, N_msDoNotTrack := y, W_doNotTrack := z\<rparr>)
          = readyToTrack sc b"
    by (simp add: readyToTrack_def)
next
  assume h: "consentRequired c \<and> \<not> dnt_signal b0 \<and> siteId c \<noteq> [] \<and> endpoint c \<noteq> [] \<and>
    \<not> getItem_throws (localStorage b) \<and> \<not> setItem_throws (localStorage b) \<and>
    cc_consent_granted (localStorage b) \<noteq> Some True"
  show "\<not> readyToTrack (fst (load_script c u b0)) b"
    using h by (auto simp: readyToTrack_def hasConsent_def ls_get_def load_script_consts
        split: option.splits)
  show "readyToTrack (fst (load_script c u b0)) (consentGranted b)"
    using h by (simp add: readyToTrack_def hasConsent_def ls_get_def ls_set_def consentGranted_def
        load_script_consts)
qed

text \<open>The script is evaluated in the example browser, where no do-not-track indicator is
  set; the gate then allows also in a browser whose \<open>navigator.doNotTrack\<close> has become
  \<open>1\<close>. With consent required, the gate denies before \<open>consentGranted\<close> and allows after.\<close>

theorem readyToTrack_dnt_sampled_at_load_witness:
  "readyToTrack (fst (load_script example_cfg [] example_browser))
     (example_browser\<lparr>N_doNotTrack := Some ''1'', N_msDoNotTrack := None, W_doNotTrack := None\<rparr>)
     = readyToTrack (fst (load_script example_cfg [] example_browser)) example_browser \<and>
   \<not> readyToTrack (fst (load_script (example_cfg\<lparr>consentRequired := True\<rparr>) [] example_browser))
       example_browser \<and>
   readyToTrack (fst (load_script (example_cfg\<lparr>consentRequired := True\<rparr>) [] example_browser))
     (consentGranted example_browser)"
  using readyToTrack_dnt_sampled_at_load [of "example_cfg\<lparr>consentRequired := True\<rparr>" "[]"
      example_browser example_browser "fst (load_script example_cfg [] example_browser)"
      "Some ''1''" None None]
  by (simp add: dnt_signal_def readyToTrack_def hasConsent_def ls_get_def ls_set_def
      consentGranted_def load_script_consts example_browser_def example_storage_def
      example_cfg_def)

text \<open>
  C7, as the claim has it, fails: the script is evaluated while no do-not-track indicator
  is set, the signal then changes to enabled, and the gate, evaluated before and after the
  change, returns \<open>true\<close> both times.
\<close>

theorem readyToTrack_dnt_change_counterexample:
  "\<not> dnt_signal example_browser \<and>
   dnt_signal (example_browser\<lparr>N_doNotTrack := Some ''1''\<rparr>) \<and>
   readyToTrack (fst (load_script example_cfg [] example_browser)) example_browser \<and>
   readyToTrack (fst (load_script example_cfg [] example_browser))
     (example_browser\<lparr>N_doNotTrack := Some ''1''\<rparr>)"
  by (simp add: dnt_signal_def readyToTrack_def hasConsent_def load_script_consts
      example_browser_def example_cfg_def)

subsection \<open>Payloads that are not objects\<close>

lemma baseEvent_payload: "ev_payload (fst (baseEvent sc d type payload b)) = payload"
  by (simp add: baseEvent_def split_beta)

text \<open>\<open>W.CC_EMBED.track\<close> replaces a payload that is not an object by \<open>{}\<close>; \<open>API.track\<close>
  is \<open>enqueue\<close> and stores what it is given.\<close>

lemma CC_EMBED_track_coerces:
  "typeof payload \<noteq> ''object'' \<or> \<not> truthy payload \<Longrightarrow>
   CC_EMBED_track sc d type payload b st
     = enqueue sc d (if type = [] then ''custom'' else type) (JObj []) b st"
  by (auto simp: CC_EMBED_track_def)

lemma API_track_keeps_payload:
  "readyToTrack sc b \<Longrightarrow> int (length (queue st)) + 1 < maxBatch (cfg sc) \<Longrightarrow>
   map ev_payload (queue (fst (API_track sc d type payload b st)))
     = map ev_payload (queue st) @ [payload]"
  by (simp add: API_track_def enqueue_below baseEvent_payload)

text \<open>
  C9. A payload that is not an object, passed to a public tracking entry point, is to be
  stored as an empty object. On the example page, \<open>W.CC.embed.track('custom', 'oops')\<close>
  (\<open>API.track\<close>) queues a record whose payload is the string \<open>oops\<close>; the same call
  through \<open>W.CC_EMBED.track\<close> queues a record whose payload is \<open>{}\<close>.
\<close>

theorem API_track_non_object_payload:
  "map ev_payload (queue (fst (API_track example_script example_draws ''custom'' (JStr ''oops'')
      example_browser example_state))) = [JStr ''oops''] \<and>
   map ev_payload (queue (fst (CC_EMBED_track example_script example_draws ''custom'' (JStr ''oops'')
      example_browser example_state))) = [JObj []]"
  by (simp add: API_track_def CC_EMBED_track_def enqueue_below example_ready example_baseEvent
      example_state_def example_maxBatch example_event_def)

end
